theory Spec2Isabelle
  imports Complex_Main "HOL-Library.Sublist"
begin

section \<open>The economic-indicator scraper (src/scrapers/app.py)\<close>

text \<open>
  A shallow embedding of the fetch, normalise, merge and persist pipeline of
  \<^verbatim>\<open>src/scrapers/app.py\<close>.

  Conventions of the model.
  \<^item> A Python \<^verbatim>\<open>str\<close> is a \<open>string\<close>; the non-ASCII display names of the registry are
    written as their UTF-8 bytes and are only ever passed through.
  \<^item> A Python \<^verbatim>\<open>float\<close> is idealised as an exact rational (\<open>rat\<close>): no NaN, no
    infinities, no representation error. \<^verbatim>\<open>float(x)\<close> is applied where the payload is
    decoded: a numeric field of a payload is \<open>Some q\<close> when the key is present and
    \<^verbatim>\<open>float\<close> accepts it, and \<open>None\<close> when the access or the conversion raises.
  \<^item> The JSON documents of the two providers are typed records; a key that may be
    missing is an \<open>option\<close> field, the fields the providers document as JSON strings
    are \<open>string\<close>s.
  \<^item> Everything outside the process is a field of the record \<open>env\<close>: the environment
    variables, the clock, and the answer of each provider to each request.
  \<^item> A raised exception is the \<open>Inl\<close> of a sum; \<^verbatim>\<open>try ... except Exception\<close> is a
    case distinction on it. The handlers treat every exception alike, so the model
    names the kind of an exception only roughly (a missing key and a value of the
    wrong JSON type are both \<open>KeyError\<close>).
  \<^item> The observable effects of an adapter (network requests, warning and error log
    records) are returned as a list of \<open>event\<close>s next to its result.
\<close>

subsection \<open>Python values and exceptions\<close>

datatype py_error =
    KeyError | IndexError | ValueError | ZeroDivisionError
  | RequestException | JSONDecodeError | OSError

definition and_then :: "py_error + 'a \<Rightarrow> ('a \<Rightarrow> py_error + 'b) \<Rightarrow> py_error + 'b" where
  "and_then m f = (case m of Inl e \<Rightarrow> Inl e | Inr x \<Rightarrow> f x)"

text \<open>\<^verbatim>\<open>d[k]\<close> on a key that may be missing, \<^verbatim>\<open>xs[0]\<close>, \<^verbatim>\<open>float(d[k])\<close>.\<close>

definition getitem :: "'a option \<Rightarrow> py_error + 'a" where
  "getitem field = (case field of None \<Rightarrow> Inl KeyError | Some v \<Rightarrow> Inr v)"

definition first_item :: "'a list \<Rightarrow> py_error + 'a" where
  "first_item xs = (case xs of [] \<Rightarrow> Inl IndexError | x # _ \<Rightarrow> Inr x)"

definition py_float :: "rat option \<Rightarrow> py_error + rat" where
  "py_float field = (case field of None \<Rightarrow> Inl ValueError | Some q \<Rightarrow> Inr q)"

text \<open>\<^verbatim>\<open>str(n)\<close> of an integer.\<close>

definition digit_char :: "nat \<Rightarrow> char" where
  "digit_char n = ''0123456789'' ! (n mod 10)"

fun str_nat :: "nat \<Rightarrow> string" where
  "str_nat n = (if n < 10 then [digit_char n] else str_nat (n div 10) @ [digit_char n])"

declare str_nat.simps [simp del]

definition py_str :: "int \<Rightarrow> string" where
  "py_str i = (if i < 0 then CHR ''-'' # str_nat (nat (- i)) else str_nat (nat i))"

text \<open>
  \<^verbatim>\<open>int(s)\<close> of a string: surrounding whitespace is stripped, one sign is allowed, then
  decimal digits, single underscores allowed between digits; anything else raises
  \<^verbatim>\<open>ValueError\<close>.
\<close>

definition py_isspace :: "char \<Rightarrow> bool" where
  "py_isspace c = (c \<in> set [CHR 0x09, CHR 0x0A, CHR 0x0B, CHR 0x0C, CHR 0x0D,
                              CHR 0x1C, CHR 0x1D, CHR 0x1E, CHR 0x1F, CHR 0x20])"

definition strip :: "string \<Rightarrow> string" where
  "strip s = rev (dropWhile py_isspace (rev (dropWhile py_isspace s)))"

definition is_digit :: "char \<Rightarrow> bool" where
  "is_digit c = (c \<in> set ''0123456789'')"

definition digit_val :: "char \<Rightarrow> nat" where
  "digit_val c = length (takeWhile (\<lambda>d. d \<noteq> c) ''0123456789'')"

fun parse_digits :: "nat \<Rightarrow> string \<Rightarrow> nat option" where
  "parse_digits acc [] = Some acc"
| "parse_digits acc (c # cs) =
     (if is_digit c then parse_digits (acc * 10 + digit_val c) cs
      else if c = CHR ''_'' then
        (case cs of [] \<Rightarrow> None
         | d # _ \<Rightarrow> if is_digit d then parse_digits acc cs else None)
      else None)"

definition py_int :: "string \<Rightarrow> py_error + int" where
  "py_int s =
     (let t = strip s;
          (neg, body) = (case t of [] \<Rightarrow> (False, t)
                         | c # r \<Rightarrow> if c = CHR ''-'' then (True, r)
                                   else if c = CHR ''+'' then (False, r) else (False, t))
      in case body of [] \<Rightarrow> Inl ValueError
         | c # _ \<Rightarrow>
             if is_digit c then
               (case parse_digits 0 body of None \<Rightarrow> Inl ValueError
                | Some n \<Rightarrow> Inr (if neg then - int n else int n))
             else Inl ValueError)"

text \<open>\<^verbatim>\<open>s.replace('M', '')\<close> and \<^verbatim>\<open>s.zfill(width)\<close>.\<close>

definition replace_M :: "string \<Rightarrow> string" where
  "replace_M s = filter (\<lambda>c. c \<noteq> CHR ''M'') s"

definition zfill :: "nat \<Rightarrow> string \<Rightarrow> string" where
  "zfill width s =
     (if width \<le> length s then s
      else (case s of [] \<Rightarrow> replicate width CHR ''0''
            | c # r \<Rightarrow>
                if c = CHR ''+'' \<or> c = CHR ''-''
                then c # replicate (width - length s) CHR ''0'' @ r
                else replicate (width - length s) CHR ''0'' @ s))"

text \<open>
  \<^verbatim>\<open>round(x, 1)\<close>: to the nearest multiple of one tenth, a tie going to the even
  neighbour.
\<close>

definition round1 :: "rat \<Rightarrow> rat" where
  "round1 x =
     (let y = x * 10; n = \<lfloor>y\<rfloor>; r = y - of_int n
      in of_int (if r < 1 / 2 then n
                 else if 1 / 2 < r then n + 1
                 else if even n then n else n + 1) / 10)"

subsection \<open>Data model\<close>

text \<open>The dictionary an adapter returns (lines 68-74 and 106-112).\<close>

record normalized =
  n_name :: string
  n_value :: rat
  n_date :: string
  n_source :: string
  n_unit :: string

text \<open>One element of a series' \<^verbatim>\<open>'data'\<close> list (lines 149-153).\<close>

record observation =
  o_month :: string
  o_value :: rat
  o_date :: string

text \<open>
  One entry of the store (lines 139-144 and 154). \<^verbatim>\<open>'lastUpdate'\<close> is absent until the
  first append.
\<close>

record series =
  s_name :: string
  s_unit :: string
  s_source :: string
  s_data :: "observation list"
  s_lastUpdate :: "string option"

type_synonym store = "string \<rightharpoonup> series"

subsection \<open>The outside world\<close>

text \<open>The body of the POST to the index provider (lines 44-48).\<close>

record bls_request =
  seriesid :: "string list"
  startyear :: string
  endyear :: string

text \<open>The query of the GET to the credentialed provider (lines 93-99).\<close>

record fred_request =
  q_series_id :: string
  q_api_key :: string
  q_file_type :: string
  q_sort_order :: string
  q_limit :: nat

text \<open>
  What the adapters read of the index provider's document: \<^verbatim>\<open>data['status']\<close>, and
  \<^verbatim>\<open>data['Results']['series'][0]['data']\<close> (\<open>None\<close> when that path raises), whose
  elements have the keys \<^verbatim>\<open>'year'\<close>, \<^verbatim>\<open>'period'\<close> and \<^verbatim>\<open>'value'\<close>.
\<close>

record bls_datum =
  d_year :: "string option"
  d_period :: "string option"
  d_value :: "rat option"

record bls_document =
  bls_status :: "string option"
  bls_series_data :: "bls_datum list option"

text \<open>
  What the adapter reads of the credentialed provider's document:
  \<^verbatim>\<open>data['observations']\<close> (\<open>None\<close> when the key is absent), whose elements have the keys
  \<^verbatim>\<open>'value'\<close> and \<^verbatim>\<open>'date'\<close>.
\<close>

record fred_observation =
  f_value :: "rat option"
  f_date :: "string option"

record fred_document =
  observations :: "fred_observation list option"

text \<open>
  The outcome of \<^verbatim>\<open>requests.post\<close>/\<^verbatim>\<open>requests.get\<close> followed by \<^verbatim>\<open>response.json()\<close>: the
  request raises (connection error, timeout), or the body is not JSON, or a document.
\<close>

datatype 'a response = Raises | NotJSON | Body 'a

record env =
  environ :: "string \<rightharpoonup> string"
  now_year :: "string \<Rightarrow> int"
  now_isoformat :: "string \<Rightarrow> string"
  bls_api :: "bls_request \<Rightarrow> bls_document response"
  fred_api :: "fred_request \<Rightarrow> fred_document response"

text \<open>
  \<open>now_year e sid\<close> is \<^verbatim>\<open>datetime.now().year\<close> as read by the index adapter called for
  the series \<open>sid\<close> (line 42); \<open>now_isoformat e key\<close> is \<^verbatim>\<open>datetime.now().isoformat()\<close> as
  read when the indicator \<open>key\<close> is appended to (line 154), which happens at most once
  for each key in a run.
\<close>

datatype event =
    HttpPost bls_request
  | HttpGet fred_request
  | LogWarning string
  | LogError string py_error

subsection \<open>The data file (lines 23-36)\<close>

text \<open>
  What a reader finds at \<^verbatim>\<open>data/indicators.json\<close>: no file, the complete JSON document
  of a store, or a file that is not a complete document (empty or cut short), on which
  \<^verbatim>\<open>json.load\<close> raises.
\<close>

datatype data_file = Absent | Stored store | Incomplete

definition load_data :: "data_file \<Rightarrow> py_error + store" where
  "load_data f =
     (case f of Absent \<Rightarrow> Inr Map.empty
      | Stored d \<Rightarrow> Inr d
      | Incomplete \<Rightarrow> Inl JSONDecodeError)"

text \<open>
  \<^verbatim>\<open>save_data\<close> creates the directory, opens the data file itself with mode \<^verbatim>\<open>'w'\<close>, which
  truncates it, lets \<^verbatim>\<open>json.dump\<close> write the document into it, and closes it. The
  environment may make it fail before the file is opened (\<open>OpenFails\<close>: the file keeps
  its content) or while the document is written (\<open>WriteFails\<close>: the file stays cut
  short). \<open>save_data_states\<close> lists the contents of the data file that are visible, in
  order, from the call to the return or the raise.
\<close>

datatype fault = NoFault | OpenFails | WriteFails

definition save_data_states :: "fault \<Rightarrow> store \<Rightarrow> data_file \<Rightarrow> data_file list" where
  "save_data_states flt d f =
     (case flt of
        OpenFails \<Rightarrow> [f]
      | WriteFails \<Rightarrow> [f, Incomplete]
      | NoFault \<Rightarrow> [f, Incomplete, Stored d])"

definition save_data :: "fault \<Rightarrow> store \<Rightarrow> data_file \<Rightarrow> (py_error + unit) \<times> data_file" where
  "save_data flt d f =
     ((case flt of NoFault \<Rightarrow> Inr () | _ \<Rightarrow> Inl OSError), last (save_data_states flt d f))"

subsection \<open>The index adapter (lines 38-77)\<close>

text \<open>
  The list comprehension of lines 62-63: every element's \<^verbatim>\<open>'year'\<close> is read, its
  \<^verbatim>\<open>'period'\<close> only when the year matches.
\<close>

fun year_ago_filter :: "string \<Rightarrow> string \<Rightarrow> bls_datum list \<Rightarrow> py_error + bls_datum list" where
  "year_ago_filter y p [] = Inr []"
| "year_ago_filter y p (d # ds) =
     and_then (getitem (d_year d)) (\<lambda>dy.
       if dy = y then
         and_then (getitem (d_period d)) (\<lambda>dp.
           and_then (year_ago_filter y p ds) (\<lambda>rest.
             Inr (if dp = p then d # rest else rest)))
       else year_ago_filter y p ds)"

definition bls_payload :: "env \<Rightarrow> string \<Rightarrow> bls_request" where
  "bls_payload e series_id =
     (let current_year = now_year e series_id
      in \<lparr>seriesid = [series_id],
          startyear = py_str (current_year - 1),
          endyear = py_str current_year\<rparr>)"

text \<open>The body of the \<^verbatim>\<open>try\<close> from the decoded document on (lines 53-74).\<close>

definition bls_extract :: "string \<Rightarrow> string \<Rightarrow> string \<Rightarrow> bls_document
    \<Rightarrow> py_error + normalized option" where
  "bls_extract series_id name unit data =
     and_then (getitem (bls_status data)) (\<lambda>status.
       if status = ''REQUEST_SUCCEEDED'' then
         and_then (getitem (bls_series_data data)) (\<lambda>series_data.
         and_then (first_item series_data) (\<lambda>latest.
         and_then (getitem (d_year latest)) (\<lambda>year.
         and_then (getitem (d_period latest)) (\<lambda>period.
         let month = zfill 2 (replace_M period) in
         and_then (py_float (d_value latest)) (\<lambda>v.
         and_then
           (if series_id = ''CUUR0000SA0'' then
              and_then (py_int year) (\<lambda>y.
              and_then (year_ago_filter (py_str (y - 1)) period series_data) (\<lambda>year_ago.
                case year_ago of
                  [] \<Rightarrow> Inr v
                | d # _ \<Rightarrow>
                    and_then (py_float (d_value d)) (\<lambda>year_ago_value.
                      if year_ago_value = 0 then Inl ZeroDivisionError
                      else Inr (((v - year_ago_value) / year_ago_value) * 100))))
            else Inr v)
           (\<lambda>v'.
              Inr (Some \<lparr>n_name = name, n_value = round1 v',
                         n_date = year @ ''-'' @ month @ ''-01'',
                         n_source = ''BLS'', n_unit = unit\<rparr>)))))))
       else Inr None)"

definition fetch_bls_try :: "env \<Rightarrow> string \<Rightarrow> string \<Rightarrow> string \<Rightarrow> py_error + normalized option" where
  "fetch_bls_try e series_id name unit =
     (case bls_api e (bls_payload e series_id) of
        Raises \<Rightarrow> Inl RequestException
      | NotJSON \<Rightarrow> Inl JSONDecodeError
      | Body data \<Rightarrow> bls_extract series_id name unit data)"

definition fetch_bls_data :: "env \<Rightarrow> string \<Rightarrow> string \<Rightarrow> string \<Rightarrow> normalized option \<times> event list" where
  "fetch_bls_data e series_id name unit =
     (case fetch_bls_try e series_id name unit of
        Inr r \<Rightarrow> (r, [HttpPost (bls_payload e series_id)])
      | Inl err \<Rightarrow> (None, [HttpPost (bls_payload e series_id), LogError name err]))"

subsection \<open>The credentialed adapter (lines 79-115)\<close>

definition environ_get :: "env \<Rightarrow> string \<Rightarrow> string \<Rightarrow> string" where
  "environ_get e k dflt = (case environ e k of None \<Rightarrow> dflt | Some v \<Rightarrow> v)"

definition fred_params :: "string \<Rightarrow> string \<Rightarrow> fred_request" where
  "fred_params series_id api_key =
     \<lparr>q_series_id = series_id, q_api_key = api_key, q_file_type = ''json'',
      q_sort_order = ''desc'', q_limit = 1\<rparr>"

text \<open>The body of the \<^verbatim>\<open>try\<close> from the decoded document on (lines 104-112).\<close>

definition fred_extract :: "string \<Rightarrow> string \<Rightarrow> fred_document \<Rightarrow> py_error + normalized option" where
  "fred_extract name unit data =
     (case observations data of
        None \<Rightarrow> Inr None
      | Some obs \<Rightarrow>
          if 0 < length obs then
            and_then (first_item obs) (\<lambda>latest.
            and_then (py_float (f_value latest)) (\<lambda>v.
            and_then (getitem (f_date latest)) (\<lambda>date.
              Inr (Some \<lparr>n_name = name, n_value = round1 v, n_date = date,
                         n_source = ''FRED'', n_unit = unit\<rparr>))))
          else Inr None)"

definition fetch_fred_data :: "env \<Rightarrow> string \<Rightarrow> string \<Rightarrow> string \<Rightarrow> normalized option \<times> event list" where
  "fetch_fred_data e series_id name unit =
     (let api_key = environ_get e ''FRED_API_KEY'' ''''
      in if api_key = '''' then (None, [LogWarning name])
         else
           (let params = fred_params series_id api_key
            in case (case fred_api e params of
                       Raises \<Rightarrow> Inl RequestException
                     | NotJSON \<Rightarrow> Inl JSONDecodeError
                     | Body data \<Rightarrow> fred_extract name unit data) of
                 Inr r \<Rightarrow> (r, [HttpGet params])
               | Inl err \<Rightarrow> (None, [HttpGet params, LogError name err])))"

subsection \<open>The orchestrator (lines 117-162)\<close>

text \<open>The display names and the unit of lines 124-128, as UTF-8.\<close>

definition name_cpi :: string where
  "name_cpi = ''CPI'' @ [CHR 0xE9, CHR 0x80, CHR 0x9A, CHR 0xE8, CHR 0x83, CHR 0x80,
                         CHR 0xE7, CHR 0x8E, CHR 0x87]"

definition name_unemployment :: string where
  "name_unemployment = [CHR 0xE5, CHR 0xA4, CHR 0xB1, CHR 0xE4, CHR 0xB8, CHR 0x9A,
                        CHR 0xE7, CHR 0x8E, CHR 0x87]"

definition name_fed_rate :: string where
  "name_fed_rate = [CHR 0xE8, CHR 0x81, CHR 0x94, CHR 0xE9, CHR 0x82, CHR 0xA6,
                    CHR 0xE5, CHR 0x9F, CHR 0xBA, CHR 0xE9, CHR 0x87, CHR 0x91,
                    CHR 0xE5, CHR 0x88, CHR 0xA9, CHR 0xE7, CHR 0x8E, CHR 0x87]"

definition name_ism :: string where
  "name_ism = ''ISM'' @ [CHR 0xE5, CHR 0x88, CHR 0xB6, CHR 0xE9, CHR 0x80, CHR 0xA0,
                         CHR 0xE4, CHR 0xB8, CHR 0x9A, CHR 0xE6, CHR 0x8C, CHR 0x87,
                         CHR 0xE6, CHR 0x95, CHR 0xB0]"

definition name_consumer_confidence :: string where
  "name_consumer_confidence =
     [CHR 0xE6, CHR 0xB6, CHR 0x88, CHR 0xE8, CHR 0xB4, CHR 0xB9, CHR 0xE8, CHR 0x80,
      CHR 0x85, CHR 0xE4, CHR 0xBF, CHR 0xA1, CHR 0xE5, CHR 0xBF, CHR 0x83, CHR 0xE6,
      CHR 0x8C, CHR 0x87, CHR 0xE6, CHR 0x95, CHR 0xB0]"

definition unit_points :: string where
  "unit_points = [CHR 0xE7, CHR 0x82, CHR 0xB9]"

type_synonym fetcher = "env \<Rightarrow> normalized option \<times> event list"

definition indicators_config :: "(string \<times> fetcher) list" where
  "indicators_config =
     [(''cpi'', \<lambda>e. fetch_bls_data e ''CUUR0000SA0'' name_cpi ''%''),
      (''unemployment'', \<lambda>e. fetch_bls_data e ''LNS14000000'' name_unemployment ''%''),
      (''fed_rate'', \<lambda>e. fetch_fred_data e ''DFEDTARU'' name_fed_rate ''%''),
      (''ism'', \<lambda>e. fetch_fred_data e ''NAPM'' name_ism unit_points),
      (''consumer_confidence'',
         \<lambda>e. fetch_fred_data e ''UMCSENT'' name_consumer_confidence unit_points)]"

text \<open>
  Lines 138-156, for a fetched \<open>new_data\<close>: the entry is created when the key is new, the
  observation is appended when its date is not among the dates of the series. The
  result is the store and whether the key was appended to \<^verbatim>\<open>updated\<close>.
\<close>

definition merge_observation :: "string \<Rightarrow> string \<Rightarrow> normalized \<Rightarrow> store \<Rightarrow> store \<times> bool" where
  "merge_observation now key new_data data =
     (let data1 = (if data key = None
                   then data(key \<mapsto> \<lparr>s_name = n_name new_data, s_unit = n_unit new_data,
                                       s_source = n_source new_data, s_data = [],
                                       s_lastUpdate = None\<rparr>)
                   else data)
      in case data1 key of
           None \<Rightarrow> (data1, False)
         | Some entry \<Rightarrow>
             (let existing_dates = map o_date (s_data entry)
              in if n_date new_data \<notin> set existing_dates
                 then (data1(key \<mapsto> entry\<lparr>s_data := s_data entry @
                                  [\<lparr>o_month = take 7 (n_date new_data),
                                    o_value = n_value new_data,
                                    o_date = n_date new_data\<rparr>],
                                s_lastUpdate := Some now\<rparr>), True)
                 else (data1, False)))"

record run_state =
  r_data :: store
  r_updated :: "string list"
  r_events :: "event list"

text \<open>
  One iteration of the loop of line 133, and the loop. The adapters catch their own
  exceptions, and on a store of the type above no operation of lines 138-156 raises, so
  the handler of line 157 has no case here. (In \<open>merge_observation\<close> the key is present
  once line 138 has run: the branch \<open>None\<close> of its \<open>case\<close> is never taken.)
\<close>

definition update_indicator :: "env \<Rightarrow> string \<times> fetcher \<Rightarrow> run_state \<Rightarrow> run_state" where
  "update_indicator e entry st =
     (let key = fst entry; (new_data, evs) = (snd entry) e
      in case new_data of
           None \<Rightarrow> st\<lparr>r_events := r_events st @ evs\<rparr>
         | Some nd \<Rightarrow>
             (let (data', changed) = merge_observation (now_isoformat e key) key nd (r_data st)
              in \<lparr>r_data = data',
                  r_updated = (if changed then r_updated st @ [key] else r_updated st),
                  r_events = r_events st @ evs\<rparr>))"

fun update_loop :: "env \<Rightarrow> (string \<times> fetcher) list \<Rightarrow> run_state \<Rightarrow> run_state" where
  "update_loop e [] st = st"
| "update_loop e (entry # rest) st = update_loop e rest (update_indicator e entry st)"

record run_result =
  returned :: "py_error + string list"
  file_after :: data_file
  events :: "event list"

definition update_all_indicators :: "env \<Rightarrow> fault \<Rightarrow> data_file \<Rightarrow> run_result" where
  "update_all_indicators e flt f =
     (case load_data f of
        Inl err \<Rightarrow> \<lparr>returned = Inl err, file_after = f, events = []\<rparr>
      | Inr data \<Rightarrow>
          (let st = update_loop e indicators_config
                      \<lparr>r_data = data, r_updated = [], r_events = []\<rparr>;
               (saved, f') = save_data flt (r_data st) f
           in \<lparr>returned = (case saved of Inl err \<Rightarrow> Inl err | Inr _ \<Rightarrow> Inr (r_updated st)),
               file_after = f', events = r_events st\<rparr>))"

text \<open>
  The contents of the data file that a reader can find, in order, from the start of a
  run to its end: the file is only read until \<^verbatim>\<open>save_data\<close> is called (line 160).
\<close>

definition update_all_indicators_states :: "env \<Rightarrow> fault \<Rightarrow> data_file \<Rightarrow> data_file list" where
  "update_all_indicators_states e flt f =
     (case load_data f of
        Inl err \<Rightarrow> [f]
      | Inr data \<Rightarrow>
          save_data_states flt
            (r_data (update_loop e indicators_config
                       \<lparr>r_data = data, r_updated = [], r_events = []\<rparr>)) f)"

subsection \<open>The on-demand trigger (lines 199-209)\<close>




subsection \<open>Notions used by the properties\<close>

text \<open>The dates of the series of a key; none when the key is absent.\<close>

definition dates_of :: "store \<Rightarrow> string \<Rightarrow> string list" where
  "dates_of data key = (case data key of None \<Rightarrow> [] | Some s \<Rightarrow> map o_date (s_data s))"


text \<open>The opposite: the adapter returns nothing, or a date the series has.\<close>

definition settled :: "env \<Rightarrow> store \<Rightarrow> string \<times> fetcher \<Rightarrow> bool" where
  "settled e data entry =
     (case fst ((snd entry) e) of None \<Rightarrow> True
      | Some nd \<Rightarrow> n_date nd \<in> set (dates_of data (fst entry)))"

text \<open>
  Every series of the first store is in the second with the same name, unit and source
  and with its observations as a prefix.
\<close>

definition grows :: "store \<Rightarrow> store \<Rightarrow> bool" where
  "grows data data' =
     (\<forall>k s. data k = Some s \<longrightarrow>
        (\<exists>s'. data' k = Some s' \<and> prefix (s_data s) (s_data s') \<and>
              s_name s' = s_name s \<and> s_unit s' = s_unit s \<and> s_source s' = s_source s))"

subsection \<open>Example worlds\<close>

text \<open>
  No credential; the index provider answers the price-index series with 118.0 for March
  2024 and 110.0 for March 2023, and every other request fails.
\<close>

definition example_env :: env where
  "example_env =
     \<lparr>environ = Map.empty, now_year = (\<lambda>_. 2024), now_isoformat = (\<lambda>_. ''2024-04-10T00:00:00''),
      bls_api = (\<lambda>r. if seriesid r = [''CUUR0000SA0''] then
                   Body \<lparr>bls_status = Some ''REQUEST_SUCCEEDED'',
                         bls_series_data = Some
                           [\<lparr>d_year = Some ''2024'', d_period = Some ''M03'', d_value = Some 118\<rparr>,
                            \<lparr>d_year = Some ''2023'', d_period = Some ''M03'', d_value = Some 110\<rparr>]\<rparr>
                 else Raises),
      fred_api = (\<lambda>_. Raises)\<rparr>"



text \<open>
  A credential is configured; the credentialed provider answers the series
  \<^verbatim>\<open>DFEDTARU\<close> with one observation dated 2024-01-15, and every other request fails.
\<close>

definition example_env_keyed :: env where
  "example_env_keyed =
     \<lparr>environ = [''FRED_API_KEY'' \<mapsto> ''secret''], now_year = (\<lambda>_. 2024),
      now_isoformat = (\<lambda>_. ''2024-01-16T00:00:00''),
      bls_api = (\<lambda>_. Raises),
      fred_api = (\<lambda>q. if q_series_id q = ''DFEDTARU'' then
                    Body \<lparr>observations = Some [\<lparr>f_value = Some (11 / 2), f_date = Some ''2024-01-15''\<rparr>]\<rparr>
                  else Raises)\<rparr>"

text \<open>A store whose only series holds one observation dated 2024-01-01.\<close>

definition example_store :: store where
  "example_store =
     [''fed_rate'' \<mapsto>
        \<lparr>s_name = name_fed_rate, s_unit = ''%'', s_source = ''FRED'',
         s_data = [\<lparr>o_month = ''2024-01'', o_value = 11 / 2, o_date = ''2024-01-01''\<rparr>],
         s_lastUpdate = Some ''2024-01-02T00:00:00''\<rparr>]"

section \<open>Properties\<close>

subsection \<open>The merge step\<close>

lemma merge_present:
  "data key = Some s \<Longrightarrow> n_date nd \<in> set (map o_date (s_data s)) \<Longrightarrow>
   merge_observation now key nd data = (data, False)"
  by (simp add: merge_observation_def)

lemma merge_other: "k \<noteq> key \<Longrightarrow> fst (merge_observation now key nd data) k = data k"
  by (simp add: merge_observation_def Let_def split: option.splits)


lemma merge_grows: "grows data (fst (merge_observation now key nd data))"
  unfolding grows_def
proof (intro allI impI)
  fix k s assume ks: "data k = Some s"
  show "\<exists>s'. fst (merge_observation now key nd data) k = Some s' \<and> prefix (s_data s) (s_data s') \<and>
              s_name s' = s_name s \<and> s_unit s' = s_unit s \<and> s_source s' = s_source s"
  proof (cases "k = key")
    case False
    then show ?thesis using ks by (simp add: merge_other)
  next
    case True
    then show ?thesis using ks by (simp add: merge_observation_def Let_def)
  qed
qed

lemma merge_settles: "n_date nd \<in> set (dates_of (fst (merge_observation now key nd data)) key)"
  by (auto simp: merge_observation_def dates_of_def Let_def split: option.splits)

lemma grows_refl: "grows d d"
  by (simp add: grows_def)

lemma grows_trans: "grows a b \<Longrightarrow> grows b c \<Longrightarrow> grows a c"
  unfolding grows_def
proof (intro allI impI)
  fix k s assume ab: "\<forall>k s. a k = Some s \<longrightarrow>
        (\<exists>s'. b k = Some s' \<and> prefix (s_data s) (s_data s') \<and>
              s_name s' = s_name s \<and> s_unit s' = s_unit s \<and> s_source s' = s_source s)"
   and bc: "\<forall>k s. b k = Some s \<longrightarrow>
        (\<exists>s'. c k = Some s' \<and> prefix (s_data s) (s_data s') \<and>
              s_name s' = s_name s \<and> s_unit s' = s_unit s \<and> s_source s' = s_source s)"
   and ak: "a k = Some s"
  from ab ak obtain s1 where s1: "b k = Some s1" "prefix (s_data s) (s_data s1)"
    "s_name s1 = s_name s" "s_unit s1 = s_unit s" "s_source s1 = s_source s" by blast
  from bc s1(1) obtain s2 where s2: "c k = Some s2" "prefix (s_data s1) (s_data s2)"
    "s_name s2 = s_name s1" "s_unit s2 = s_unit s1" "s_source s2 = s_source s1" by blast
  from s1 s2 have "prefix (s_data s) (s_data s2)" by (meson prefix_order.order_trans)
  with s1 s2 show "\<exists>s'. c k = Some s' \<and> prefix (s_data s) (s_data s') \<and>
              s_name s' = s_name s \<and> s_unit s' = s_unit s \<and> s_source s' = s_source s" by simp
qed

lemma grows_dates: "grows a b \<Longrightarrow> set (dates_of a k) \<subseteq> set (dates_of b k)"
proof (cases "a k")
  case None
  then show ?thesis by (simp add: dates_of_def)
next
  case (Some s)
  assume g: "grows a b"
  with Some obtain s' where s': "b k = Some s'" "prefix (s_data s) (s_data s')"
    unfolding grows_def by blast
  from s'(2) have "set (s_data s) \<subseteq> set (s_data s')" by (rule set_mono_prefix)
  then show ?thesis using Some s'(1) by (auto simp: dates_of_def)
qed


subsection \<open>The loop\<close>

lemma update_indicator_data:
  "r_data (update_indicator e entry st) =
     (case fst ((snd entry) e) of None \<Rightarrow> r_data st
      | Some nd \<Rightarrow> fst (merge_observation (now_isoformat e (fst entry)) (fst entry) nd (r_data st)))"
  by (simp add: update_indicator_def Let_def split: prod.splits option.splits)




lemma update_indicator_grows: "grows (r_data st) (r_data (update_indicator e entry st))"
  by (simp add: update_indicator_data merge_grows grows_refl split: option.splits)

lemma update_indicator_settles:
  "fst ((snd entry) e') = fst ((snd entry) e) \<Longrightarrow>
   settled e' (r_data (update_indicator e entry st)) entry"
  by (simp add: settled_def update_indicator_data merge_settles split: option.splits)

lemma update_loop_grows: "grows (r_data st) (r_data (update_loop e cfg st))"
proof (induction cfg arbitrary: st)
  case Nil
  show ?case by (simp add: grows_refl)
next
  case (Cons entry rest)
  have "grows (r_data st) (r_data (update_indicator e entry st))"
    by (rule update_indicator_grows)
  moreover have "grows (r_data (update_indicator e entry st))
      (r_data (update_loop e rest (update_indicator e entry st)))"
    by (rule Cons.IH)
  ultimately show ?case by (simp add: grows_trans)
qed

lemma settled_grows: "grows a b \<Longrightarrow> settled e a entry \<Longrightarrow> settled e b entry"
  using grows_dates [of a b "fst entry"]
  by (auto simp: settled_def split: option.splits)

lemma update_loop_settles:
  "\<forall>entry \<in> set cfg. fst ((snd entry) e') = fst ((snd entry) e) \<Longrightarrow>
   \<forall>entry \<in> set cfg. settled e' (r_data (update_loop e cfg st)) entry"
proof (induction cfg arbitrary: st)
  case Nil
  show ?case by simp
next
  case (Cons entry rest)
  let ?st = "update_indicator e entry st"
  have "settled e' (r_data ?st) entry"
    using Cons.prems by (simp add: update_indicator_settles)
  then have "settled e' (r_data (update_loop e rest ?st)) entry"
    by (rule settled_grows [OF update_loop_grows])
  moreover have "\<forall>x \<in> set rest. settled e' (r_data (update_loop e rest ?st)) x"
    using Cons.IH [of ?st] Cons.prems by simp
  ultimately show ?case by simp
qed

lemma update_indicator_settled:
  "settled e (r_data st) entry \<Longrightarrow>
   update_indicator e entry st = st\<lparr>r_events := r_events st @ snd ((snd entry) e)\<rparr>"
  by (cases "r_data st (fst entry)")
     (auto simp: settled_def dates_of_def update_indicator_def merge_observation_def Let_def
           split: prod.splits option.splits)

lemma update_loop_settled:
  "\<forall>entry \<in> set cfg. settled e (r_data st) entry \<Longrightarrow>
   r_data (update_loop e cfg st) = r_data st \<and> r_updated (update_loop e cfg st) = r_updated st"
proof (induction cfg arbitrary: st)
  case Nil
  show ?case by simp
next
  case (Cons entry rest)
  let ?st = "st\<lparr>r_events := r_events st @ snd ((snd entry) e)\<rparr>"
  have step: "update_indicator e entry st = ?st"
    using Cons.prems by (simp add: update_indicator_settled)
  have "\<forall>x \<in> set rest. settled e (r_data ?st) x"
    using Cons.prems by simp
  from Cons.IH [OF this] show ?case by (simp add: step)
qed



subsection \<open>A whole run\<close>

lemma load_data_Inr: "f \<noteq> Incomplete \<Longrightarrow> \<exists>d. load_data f = Inr d"
  by (cases f) (simp_all add: load_data_def)

lemma update_all_NoFault:
  "load_data f = Inr d \<Longrightarrow>
   update_all_indicators e NoFault f =
     (let st = update_loop e indicators_config \<lparr>r_data = d, r_updated = [], r_events = []\<rparr>
      in \<lparr>returned = Inr (r_updated st), file_after = Stored (r_data st), events = r_events st\<rparr>)"
  by (simp add: update_all_indicators_def save_data_def save_data_states_def Let_def)

lemma load_data_Stored: "load_data (Stored d) = Inr d"
  by (simp add: load_data_def)

lemma fetch_bls_data_clock:
  "fetch_bls_data (e\<lparr>now_isoformat := c\<rparr>) sid name unit = fetch_bls_data e sid name unit"
  by (simp add: fetch_bls_data_def fetch_bls_try_def bls_payload_def
      cong: sum.case_cong response.case_cong)

lemma fetch_fred_data_clock:
  "fetch_fred_data (e\<lparr>now_isoformat := c\<rparr>) sid name unit = fetch_fred_data e sid name unit"
  by (simp add: fetch_fred_data_def environ_get_def Let_def
      cong: sum.case_cong response.case_cong)

lemma fetch_clock:
  "\<forall>entry \<in> set indicators_config.
     fst ((snd entry) (e\<lparr>now_isoformat := c\<rparr>)) = fst ((snd entry) e)"
  by (simp add: indicators_config_def fetch_bls_data_clock fetch_fred_data_clock)

subsection \<open>C1: merging is idempotent on dates\<close>

text \<open>
  C1. An observation whose date already occurs in the series of its key leaves the store
  as it is and is reported as no change. Hence, when a run that loads and saves the
  store is followed by a second run in which every adapter returns what it returned in
  the first, the second run returns the empty list of changed keys and leaves the data
  file, with every \<^verbatim>\<open>lastUpdate\<close>, as the first run wrote it.
\<close>

theorem merge_idempotent:
  "(data key = Some s \<and> n_date nd \<in> set (map o_date (s_data s)) \<longrightarrow>
      merge_observation now key nd data = (data, False)) \<and>
   (f \<noteq> Incomplete \<and>
    (\<forall>entry \<in> set indicators_config. fst ((snd entry) e2) = fst ((snd entry) e1)) \<longrightarrow>
      returned (update_all_indicators e2 NoFault
                 (file_after (update_all_indicators e1 NoFault f))) = Inr [] \<and>
      file_after (update_all_indicators e2 NoFault
                 (file_after (update_all_indicators e1 NoFault f))) =
        file_after (update_all_indicators e1 NoFault f))"
proof (intro conjI impI)
  assume "data key = Some s \<and> n_date nd \<in> set (map o_date (s_data s))"
  then show "merge_observation now key nd data = (data, False)"
    by (simp add: merge_present)
next
  assume a: "f \<noteq> Incomplete \<and>
    (\<forall>entry \<in> set indicators_config. fst ((snd entry) e2) = fst ((snd entry) e1))"
  then obtain d where d: "load_data f = Inr d"
    using load_data_Inr by blast
  define st1 where "st1 = update_loop e1 indicators_config \<lparr>r_data = d, r_updated = [], r_events = []\<rparr>"
  define st where "st = \<lparr>r_data = r_data st1, r_updated = [], r_events = []\<rparr>"
  have f1: "file_after (update_all_indicators e1 NoFault f) = Stored (r_data st1)"
    by (simp add: update_all_NoFault [OF d] st1_def Let_def)
  have "\<forall>entry \<in> set indicators_config. settled e2 (r_data st1) entry"
    unfolding st1_def using a by (intro update_loop_settles) simp
  then have "\<forall>entry \<in> set indicators_config. settled e2 (r_data st) entry"
    by (simp add: st_def)
  from update_loop_settled [OF this]
  have same: "r_data (update_loop e2 indicators_config st) = r_data st1"
    "r_updated (update_loop e2 indicators_config st) = []"
    by (simp_all add: st_def)
  have r2: "update_all_indicators e2 NoFault (Stored (r_data st1)) =
     (let st' = update_loop e2 indicators_config st
      in \<lparr>returned = Inr (r_updated st'), file_after = Stored (r_data st'), events = r_events st'\<rparr>)"
    unfolding st_def by (rule update_all_NoFault [OF load_data_Stored])
  show "returned (update_all_indicators e2 NoFault
                 (file_after (update_all_indicators e1 NoFault f))) = Inr []"
    by (simp add: f1 r2 same Let_def)
  show "file_after (update_all_indicators e2 NoFault
                 (file_after (update_all_indicators e1 NoFault f))) =
        file_after (update_all_indicators e1 NoFault f)"
    by (simp add: f1 r2 same Let_def)
qed

theorem merge_idempotent_witness:
  "merge_observation ''2024-02-01T00:00:00'' ''fed_rate''
      \<lparr>n_name = name_fed_rate, n_value = 11 / 2, n_date = ''2024-01-01'',
       n_source = ''FRED'', n_unit = ''%''\<rparr> example_store = (example_store, False) \<and>
   returned (update_all_indicators (example_env\<lparr>now_isoformat := (\<lambda>_. ''2024-04-11T00:00:00'')\<rparr>)
       NoFault (file_after (update_all_indicators example_env NoFault Absent))) = Inr [] \<and>
   file_after (update_all_indicators (example_env\<lparr>now_isoformat := (\<lambda>_. ''2024-04-11T00:00:00'')\<rparr>)
       NoFault (file_after (update_all_indicators example_env NoFault Absent))) =
     file_after (update_all_indicators example_env NoFault Absent)"
  using merge_idempotent [where data = example_store and key = "''fed_rate''"
      and s = "\<lparr>s_name = name_fed_rate, s_unit = ''%'', s_source = ''FRED'',
         s_data = [\<lparr>o_month = ''2024-01'', o_value = 11 / 2, o_date = ''2024-01-01''\<rparr>],
         s_lastUpdate = Some ''2024-01-02T00:00:00''\<rparr>"
      and nd = "\<lparr>n_name = name_fed_rate, n_value = 11 / 2, n_date = ''2024-01-01'',
       n_source = ''FRED'', n_unit = ''%''\<rparr>" and now = "''2024-02-01T00:00:00''"
      and f = Absent and ?e2.0 = "example_env\<lparr>now_isoformat := (\<lambda>_. ''2024-04-11T00:00:00'')\<rparr>"
      and ?e1.0 = example_env]
    fetch_clock [where e = example_env and c = "\<lambda>_. ''2024-04-11T00:00:00''"]
  by (simp add: example_store_def)

subsection \<open>C2: merging only appends\<close>

text \<open>
  C2. A series that is in the store before the loop of a run is in the store after it,
  with its observations before the run as a prefix (so also a subsequence) of its
  observations after the run and with its name, unit and source unchanged; when the
  store is saved, that is what the data file holds.
\<close>

theorem merge_append_only:
  "(data k = Some s \<longrightarrow>
      (\<exists>s'. r_data (update_loop e indicators_config
                      \<lparr>r_data = data, r_updated = u, r_events = ev\<rparr>) k = Some s' \<and>
            prefix (s_data s) (s_data s') \<and> subseq (s_data s) (s_data s') \<and>
            s_name s' = s_name s \<and> s_unit s' = s_unit s \<and> s_source s' = s_source s)) \<and>
   (load_data f = Inr data \<and> data k = Some s \<longrightarrow>
      (\<exists>data' s'. file_after (update_all_indicators e NoFault f) = Stored data' \<and>
            data' k = Some s' \<and>
            prefix (s_data s) (s_data s') \<and> subseq (s_data s) (s_data s') \<and>
            s_name s' = s_name s \<and> s_unit s' = s_unit s \<and> s_source s' = s_source s))"
proof -
  have g: "grows data (r_data (update_loop e indicators_config
                      \<lparr>r_data = data, r_updated = u, r_events = ev\<rparr>))" for u ev
    using update_loop_grows [of "\<lparr>r_data = data, r_updated = u, r_events = ev\<rparr>" e indicators_config]
    by simp
  have p: "prefix xs ys \<Longrightarrow> subseq xs ys" for xs ys :: "observation list"
    by (rule prefix_imp_subseq)
  show ?thesis
  proof (intro conjI impI)
    assume "data k = Some s"
    with g [of u ev] show "\<exists>s'. r_data (update_loop e indicators_config
                      \<lparr>r_data = data, r_updated = u, r_events = ev\<rparr>) k = Some s' \<and>
            prefix (s_data s) (s_data s') \<and> subseq (s_data s) (s_data s') \<and>
            s_name s' = s_name s \<and> s_unit s' = s_unit s \<and> s_source s' = s_source s"
      unfolding grows_def using p by blast
  next
    assume a: "load_data f = Inr data \<and> data k = Some s"
    then have "file_after (update_all_indicators e NoFault f) =
       Stored (r_data (update_loop e indicators_config \<lparr>r_data = data, r_updated = [], r_events = []\<rparr>))"
      by (simp add: update_all_NoFault Let_def)
    moreover from a g [of "[]" "[]"]
    have "\<exists>s'. r_data (update_loop e indicators_config
                      \<lparr>r_data = data, r_updated = [], r_events = []\<rparr>) k = Some s' \<and>
            prefix (s_data s) (s_data s') \<and> subseq (s_data s) (s_data s') \<and>
            s_name s' = s_name s \<and> s_unit s' = s_unit s \<and> s_source s' = s_source s"
      unfolding grows_def using p by blast
    ultimately show "\<exists>data' s'. file_after (update_all_indicators e NoFault f) = Stored data' \<and>
            data' k = Some s' \<and>
            prefix (s_data s) (s_data s') \<and> subseq (s_data s) (s_data s') \<and>
            s_name s' = s_name s \<and> s_unit s' = s_unit s \<and> s_source s' = s_source s"
      by simp
  qed
qed

theorem merge_append_only_witness:
  "(\<exists>s'. r_data (update_loop example_env_keyed indicators_config
                   \<lparr>r_data = example_store, r_updated = [], r_events = []\<rparr>) ''fed_rate'' = Some s' \<and>
         prefix [\<lparr>o_month = ''2024-01'', o_value = 11 / 2, o_date = ''2024-01-01''\<rparr>] (s_data s') \<and>
         s_name s' = name_fed_rate \<and> s_unit s' = ''%'' \<and> s_source s' = ''FRED'') \<and>
   (\<exists>data' s'. file_after (update_all_indicators example_env_keyed NoFault (Stored example_store)) =
           Stored data' \<and> data' ''fed_rate'' = Some s' \<and>
         prefix [\<lparr>o_month = ''2024-01'', o_value = 11 / 2, o_date = ''2024-01-01''\<rparr>] (s_data s'))"
  using merge_append_only [where data = example_store and k = "''fed_rate''"
      and s = "\<lparr>s_name = name_fed_rate, s_unit = ''%'', s_source = ''FRED'',
         s_data = [\<lparr>o_month = ''2024-01'', o_value = 11 / 2, o_date = ''2024-01-01''\<rparr>],
         s_lastUpdate = Some ''2024-01-02T00:00:00''\<rparr>"
      and e = example_env_keyed and u = "[]" and ev = "[]" and f = "Stored example_store"]
  by (simp add: example_store_def load_data_def) blast

subsection \<open>Runs under failing adapters and failing writes\<close>










subsection \<open>C6: a failing adapter does not stop the run\<close>



subsection \<open>C5: no credential, no request, no change\<close>



subsection \<open>C7: a failing write is reported, a failing adapter is not\<close>



subsection \<open>Dates and months of a series\<close>

lemma merge_distinct:
  "distinct (dates_of data k) \<Longrightarrow>
   distinct (dates_of (fst (merge_observation now key nd data)) k)"
  by (auto simp: merge_observation_def dates_of_def Let_def split: option.splits)

lemma update_indicator_distinct:
  "\<forall>k. distinct (dates_of (r_data st) k) \<Longrightarrow>
   \<forall>k. distinct (dates_of (r_data (update_indicator e entry st)) k)"
  by (simp add: update_indicator_data merge_distinct split: option.splits)

lemma update_loop_distinct:
  "\<forall>k. distinct (dates_of (r_data st) k) \<Longrightarrow>
   \<forall>k. distinct (dates_of (r_data (update_loop e cfg st)) k)"
proof (induction cfg arbitrary: st)
  case Nil
  then show ?case by simp
next
  case (Cons entry rest)
  from Cons.prems have "\<forall>k. distinct (dates_of (r_data (update_indicator e entry st)) k)"
    by (rule update_indicator_distinct)
  from Cons.IH [OF this] show ?case by simp
qed

lemma fred_extract_first:
  "fred_extract name unit \<lparr>observations = Some (\<lparr>f_value = Some v, f_date = Some d\<rparr> # others)\<rparr> =
     Inr (Some \<lparr>n_name = name, n_value = round1 v, n_date = d,
                n_source = ''FRED'', n_unit = unit\<rparr>)"
  by (simp add: fred_extract_def first_item_def py_float_def getitem_def and_then_def)

lemma example_keyed_loop:
  "map_option (\<lambda>s. map (\<lambda>ob. (o_month ob, o_date ob)) (s_data s))
     (r_data (update_loop example_env_keyed indicators_config
                \<lparr>r_data = example_store, r_updated = [], r_events = []\<rparr>) ''fed_rate'') =
     Some [(''2024-01'', ''2024-01-01''), (''2024-01'', ''2024-01-15'')]"
  by code_simp

subsection \<open>C8: dates are unique in a series, months need not be\<close>

text \<open>
  C8. When no series of the store holds a date twice before the loop of a run, none
  does after it. The credentialed adapter returns the date of the provider's first
  observation as it is. Merging an observation whose date is new to the series, and
  whose first seven characters are the month of an observation the series has, appends
  a record: the series then holds two observations with the same month.
\<close>

theorem dates_unique_months_not:
  "((\<forall>k. distinct (dates_of data k)) \<longrightarrow>
      (\<forall>k. distinct (dates_of (r_data (update_loop e indicators_config
                \<lparr>r_data = data, r_updated = u, r_events = ev\<rparr>)) k))) \<and>
   fred_extract name unit \<lparr>observations = Some (\<lparr>f_value = Some v, f_date = Some d\<rparr> # others)\<rparr> =
     Inr (Some \<lparr>n_name = name, n_value = round1 v, n_date = d,
                n_source = ''FRED'', n_unit = unit\<rparr>) \<and>
   (data key = Some s \<and> n_date nd \<notin> set (map o_date (s_data s)) \<and>
    take 7 (n_date nd) \<in> set (map o_month (s_data s)) \<longrightarrow>
      (\<exists>s'. fst (merge_observation now key nd data) key = Some s' \<and>
            length (s_data s') = Suc (length (s_data s)) \<and>
            \<not> distinct (map o_month (s_data s'))))"
proof (intro conjI impI)
  assume "\<forall>k. distinct (dates_of data k)"
  then show "\<forall>k. distinct (dates_of (r_data (update_loop e indicators_config
                \<lparr>r_data = data, r_updated = u, r_events = ev\<rparr>)) k)"
    using update_loop_distinct [of "\<lparr>r_data = data, r_updated = u, r_events = ev\<rparr>"] by simp
next
  show "fred_extract name unit \<lparr>observations = Some (\<lparr>f_value = Some v, f_date = Some d\<rparr> # others)\<rparr> =
     Inr (Some \<lparr>n_name = name, n_value = round1 v, n_date = d,
                n_source = ''FRED'', n_unit = unit\<rparr>)"
    by (rule fred_extract_first)
next
  assume "data key = Some s \<and> n_date nd \<notin> set (map o_date (s_data s)) \<and>
    take 7 (n_date nd) \<in> set (map o_month (s_data s))"
  then show "\<exists>s'. fst (merge_observation now key nd data) key = Some s' \<and>
            length (s_data s') = Suc (length (s_data s)) \<and>
            \<not> distinct (map o_month (s_data s'))"
    by (simp add: merge_observation_def Let_def)
qed

theorem dates_unique_months_not_witness:
  "(\<forall>k. distinct (dates_of (r_data (update_loop example_env_keyed indicators_config
             \<lparr>r_data = example_store, r_updated = [], r_events = []\<rparr>)) k)) \<and>
   map_option (\<lambda>s. map (\<lambda>ob. (o_month ob, o_date ob)) (s_data s))
     (r_data (update_loop example_env_keyed indicators_config
                \<lparr>r_data = example_store, r_updated = [], r_events = []\<rparr>) ''fed_rate'') =
     Some [(''2024-01'', ''2024-01-01''), (''2024-01'', ''2024-01-15'')] \<and>
   (\<exists>s'. fst (merge_observation ''2024-01-16T00:00:00'' ''fed_rate''
               \<lparr>n_name = name_fed_rate, n_value = 11 / 2, n_date = ''2024-01-15'',
                n_source = ''FRED'', n_unit = ''%''\<rparr> example_store) ''fed_rate'' = Some s' \<and>
         length (s_data s') = 2 \<and> \<not> distinct (map o_month (s_data s')))"
proof -
  let ?s = "\<lparr>s_name = name_fed_rate, s_unit = ''%'', s_source = ''FRED'',
         s_data = [\<lparr>o_month = ''2024-01'', o_value = 11 / 2, o_date = ''2024-01-01''\<rparr>],
         s_lastUpdate = Some ''2024-01-02T00:00:00''\<rparr>"
  let ?nd = "\<lparr>n_name = name_fed_rate, n_value = 11 / 2, n_date = ''2024-01-15'',
                n_source = ''FRED'', n_unit = ''%''\<rparr>"
  have h1: "\<forall>k. distinct (dates_of example_store k)"
    by (simp add: example_store_def dates_of_def)
  have h2: "example_store ''fed_rate'' = Some ?s \<and> n_date ?nd \<notin> set (map o_date (s_data ?s)) \<and>
      take 7 (n_date ?nd) \<in> set (map o_month (s_data ?s))"
    by (simp add: example_store_def)
  note t = dates_unique_months_not [where data = example_store and e = example_env_keyed
      and u = "[]" and ev = "[]" and key = "''fed_rate''" and now = "''2024-01-16T00:00:00''"
      and nd = ?nd and s = ?s and name = "''n''" and unit = "''%''" and v = 0 and d = "''d''"
      and others = "[]"]
  from t h1 have c1: "\<forall>k. distinct (dates_of (r_data (update_loop example_env_keyed indicators_config
             \<lparr>r_data = example_store, r_updated = [], r_events = []\<rparr>)) k)"
    by blast
  from t h2 have c3: "\<exists>s'. fst (merge_observation ''2024-01-16T00:00:00'' ''fed_rate'' ?nd
          example_store) ''fed_rate'' = Some s' \<and>
         length (s_data s') = Suc (length (s_data ?s)) \<and> \<not> distinct (map o_month (s_data s'))"
    by blast
  from c3 have c3': "\<exists>s'. fst (merge_observation ''2024-01-16T00:00:00'' ''fed_rate'' ?nd
          example_store) ''fed_rate'' = Some s' \<and>
         length (s_data s') = 2 \<and> \<not> distinct (map o_month (s_data s'))"
    by (simp add: numeral_2_eq_2)
  show ?thesis using c1 c3' example_keyed_loop by blast
qed

subsection \<open>C9: the credentialed adapter returns the same value for every failure\<close>

text \<open>
  C9. The value returned by the credentialed adapter is \<^verbatim>\<open>None\<close> when the credential is
  missing, when the request raises, when the body is not JSON, when the document has no
  observations or an empty list of them, and when the first observation lacks a usable
  value or a date. The cases differ in the events only.
\<close>

theorem fred_outcomes_indistinguishable:
  "environ_get e ''FRED_API_KEY'' '''' = '''' \<or>
   fred_api e (fred_params series_id (environ_get e ''FRED_API_KEY'' '''')) = Raises \<or>
   fred_api e (fred_params series_id (environ_get e ''FRED_API_KEY'' '''')) = NotJSON \<or>
   (\<exists>data. fred_api e (fred_params series_id (environ_get e ''FRED_API_KEY'' '''')) = Body data \<and>
      (observations data = None \<or> observations data = Some [] \<or>
       (\<exists>ob others. observations data = Some (ob # others) \<and>
          (f_value ob = None \<or> f_date ob = None)))) \<Longrightarrow>
   fst (fetch_fred_data e series_id name unit) = None"
  by (auto simp: fetch_fred_data_def fred_extract_def Let_def first_item_def py_float_def
        getitem_def and_then_def split: option.splits)

theorem fred_outcomes_indistinguishable_witness:
  "fst (fetch_fred_data example_env ''DFEDTARU'' name_fed_rate ''%'') = None \<and>
   fst (fetch_fred_data example_env_keyed ''NAPM'' name_ism unit_points) = None \<and>
   fst (fetch_fred_data (example_env_keyed\<lparr>fred_api := (\<lambda>_. NotJSON)\<rparr>)
          ''DFEDTARU'' name_fed_rate ''%'') = None \<and>
   fst (fetch_fred_data (example_env_keyed\<lparr>fred_api := (\<lambda>_. Body \<lparr>observations = Some []\<rparr>)\<rparr>)
          ''DFEDTARU'' name_fed_rate ''%'') = None"
  using fred_outcomes_indistinguishable [where e = example_env and series_id = "''DFEDTARU''"
      and name = name_fed_rate and unit = "''%''"]
    fred_outcomes_indistinguishable [where e = example_env_keyed and series_id = "''NAPM''"
      and name = name_ism and unit = unit_points]
    fred_outcomes_indistinguishable [where e = "example_env_keyed\<lparr>fred_api := (\<lambda>_. NotJSON)\<rparr>"
      and series_id = "''DFEDTARU''" and name = name_fed_rate and unit = "''%''"]
    fred_outcomes_indistinguishable [where
      e = "example_env_keyed\<lparr>fred_api := (\<lambda>_. Body \<lparr>observations = Some []\<rparr>)\<rparr>"
      and series_id = "''DFEDTARU''" and name = name_fed_rate and unit = "''%''"]
  by (simp add: example_env_def example_env_keyed_def environ_get_def fred_params_def)

subsection \<open>The index adapter\<close>


lemma year_ago_filter_Inr:
  "year_ago_filter y p ds = Inr r \<Longrightarrow>
   r = filter (\<lambda>d. d_year d = Some y \<and> d_period d = Some p) ds \<and>
   (\<forall>d \<in> set ds. d_year d \<noteq> None \<and> (d_year d = Some y \<longrightarrow> d_period d \<noteq> None))"
  by (induction ds arbitrary: r)
     (auto simp: getitem_def and_then_def split: option.splits if_splits sum.splits)








subsection \<open>C4: the year-over-year value of the price index\<close>



subsection \<open>C10: the conversion is selected by the series identifier\<close>



subsection \<open>C3: the store is written in place\<close>

text \<open>
  C3 claims that a reader never finds anything but the complete store of before the run
  or the complete store of after it. The following fact shows a run during which the
  data file is incomplete, so that \<^verbatim>\<open>load_data\<close> raises instead of returning either store.
\<close>

theorem save_not_atomic:
  "Incomplete \<in> set (update_all_indicators_states example_env NoFault (Stored example_store)) \<and>
   load_data Incomplete = Inl JSONDecodeError \<and>
   load_data Incomplete \<noteq> load_data (Stored example_store) \<and>
   load_data Incomplete \<noteq>
     load_data (file_after (update_all_indicators example_env NoFault (Stored example_store)))"
  by (simp add: update_all_indicators_states_def save_data_states_def load_data_def
        update_all_NoFault Let_def)

text \<open>
  C3, as the code has it. \<^verbatim>\<open>save_data\<close> writes into the data file itself; there is no
  staging location. In a run that loads the store and whose write succeeds, a reader
  finds, in this order: the file of before the run; an incomplete file, on which
  \<^verbatim>\<open>load_data\<close> raises; the complete store of after the run.
\<close>

theorem save_in_place:
  "load_data f = Inr data \<Longrightarrow>
   update_all_indicators_states e NoFault f =
     [f, Incomplete, file_after (update_all_indicators e NoFault f)] \<and>
   file_after (update_all_indicators e NoFault f) =
     Stored (r_data (update_loop e indicators_config
                       \<lparr>r_data = data, r_updated = [], r_events = []\<rparr>)) \<and>
   load_data (file_after (update_all_indicators e NoFault f)) =
     Inr (r_data (update_loop e indicators_config
                       \<lparr>r_data = data, r_updated = [], r_events = []\<rparr>)) \<and>
   load_data Incomplete = Inl JSONDecodeError"
  by (simp add: update_all_indicators_states_def save_data_states_def load_data_def
        update_all_NoFault Let_def)

theorem save_in_place_witness:
  "update_all_indicators_states example_env NoFault Absent =
     [Absent, Incomplete, file_after (update_all_indicators example_env NoFault Absent)] \<and>
   load_data Incomplete = Inl JSONDecodeError"
  using save_in_place [where f = Absent and data = Map.empty and e = example_env]
  by (simp add: load_data_def)

end
